theory Spec2Isabelle
  imports Main
begin

section \<open>JavaScript values\<close>

text \<open>
  The handlers of \<^verbatim>\<open>websocket-utils.js\<close> and of the main module work on values produced by
  \<^verbatim>\<open>JSON.parse\<close> and on the module-level containers. A value is a JSON value or
  \<^verbatim>\<open>undefined\<close> (the result of reading a property that is not there). Numbers are the
  integer-valued ones; an object is its list of properties in insertion order.
\<close>

datatype js =
    JUndefined
  | JNull
  | JBool bool
  | JNum int
  | JStr string
  | JArr "js list"
  | JObj "(string \<times> js) list"

datatype js_error = TypeError | SyntaxError | DataError | ParseError

text \<open>Truthiness, as \<^verbatim>\<open>if (v)\<close> and \<^verbatim>\<open>!v\<close> decide it.\<close>

fun truthy :: "js \<Rightarrow> bool" where
  "truthy JUndefined = False"
| "truthy JNull = False"
| "truthy (JBool b) = b"
| "truthy (JNum n) = (n \<noteq> 0)"
| "truthy (JStr s) = (s \<noteq> [])"
| "truthy (JArr xs) = True"
| "truthy (JObj kvs) = True"

fun typeof :: "js \<Rightarrow> string" where
  "typeof JUndefined = ''undefined''"
| "typeof JNull = ''object''"
| "typeof (JBool b) = ''boolean''"
| "typeof (JNum n) = ''number''"
| "typeof (JStr s) = ''string''"
| "typeof (JArr xs) = ''object''"
| "typeof (JObj kvs) = ''object''"

fun isArray :: "js \<Rightarrow> bool" where
  "isArray (JArr xs) = True"
| "isArray v = False"

text \<open>
  Reading a named property \<^verbatim>\<open>v.k\<close>. On \<^verbatim>\<open>null\<close> and \<^verbatim>\<open>undefined\<close> it throws a TypeError.
  On an object it is the property's value or \<^verbatim>\<open>undefined\<close>. The names the source reads
  (\<^verbatim>\<open>all\<close>, \<^verbatim>\<open>msg_type\<close>, \<^verbatim>\<open>status_code\<close>, \<^verbatim>\<open>timestamp\<close>, \<^verbatim>\<open>content\<close>, \<^verbatim>\<open>data\<close>, \<^verbatim>\<open>origin\<close>,
  \<^verbatim>\<open>type\<close>, \<^verbatim>\<open>payload\<close>, ...) are no built-in property of a string, number, boolean or array,
  so there the result is \<^verbatim>\<open>undefined\<close>.
\<close>

fun js_prop :: "js \<Rightarrow> string \<Rightarrow> js" where
  "js_prop (JObj kvs) k = (case map_of kvs k of None \<Rightarrow> JUndefined | Some v \<Rightarrow> v)"
| "js_prop v k = JUndefined"

fun nullish :: "js \<Rightarrow> bool" where
  "nullish JUndefined = True"
| "nullish JNull = True"
| "nullish v = False"

definition get_prop :: "js \<Rightarrow> string \<Rightarrow> js_error + js" where
  "get_prop v k = (if nullish v then Inl TypeError else Inr (js_prop v k))"

text \<open>Optional chaining \<^verbatim>\<open>v?.k\<close>.\<close>

definition opt_prop :: "js \<Rightarrow> string \<Rightarrow> js" where
  "opt_prop v k = (if nullish v then JUndefined else js_prop v k)"

text \<open>\<^verbatim>\<open>xs[0]\<close> and \<^verbatim>\<open>xs.length\<close> of an array.\<close>

fun index0 :: "js \<Rightarrow> js" where
  "index0 (JArr (x # xs)) = x"
| "index0 v = JUndefined"

fun array_length :: "js \<Rightarrow> nat" where
  "array_length (JArr xs) = length xs"
| "array_length v = 0"

section \<open>URL resolution\<close>

text \<open>
  \<^verbatim>\<open>resolveWsUrl\<close>: the body of the \<^verbatim>\<open>try\<close> block, with a thrown exception as \<open>Inl\<close>,
  and the function itself, whose \<^verbatim>\<open>catch\<close> turns any exception into \<^verbatim>\<open>null\<close>.
\<close>

definition resolveWsUrl_try :: "js \<Rightarrow> js_error + js" where
  "resolveWsUrl_try server_urls =
     (if \<not> truthy server_urls then Inr JNull
      else if typeof server_urls = ''string'' then Inr server_urls
      else (case get_prop server_urls ''all'' of
              Inl e \<Rightarrow> Inl e
            | Inr a \<Rightarrow>
                if truthy a then Inr a
                else if isArray server_urls \<and> 0 < array_length server_urls
                  then Inr (index0 server_urls)
                else Inr JNull))"

definition resolveWsUrl :: "js \<Rightarrow> js" where
  "resolveWsUrl server_urls =
     (case resolveWsUrl_try server_urls of Inl e \<Rightarrow> JNull | Inr r \<Rightarrow> r)"

section \<open>Recent transcripts\<close>

text \<open>
  \<^verbatim>\<open>recentTranscripts\<close> is a module-level array. \<^verbatim>\<open>unshift\<close> puts the new entry at index 0,
  \<^verbatim>\<open>slice(0, 50)\<close> keeps the first fifty.
\<close>

definition unshift :: "'a \<Rightarrow> 'a list \<Rightarrow> 'a list" where
  "unshift x xs = x # xs"

definition slice0 :: "nat \<Rightarrow> 'a list \<Rightarrow> 'a list" where
  "slice0 n xs = take n xs"

definition addToRecentTranscripts_buf :: "js \<Rightarrow> js list \<Rightarrow> js list" where
  "addToRecentTranscripts_buf transcript recent =
     (let r = unshift transcript recent
      in if length r > 50 then slice0 50 r else r)"

section \<open>Sockets, subscribers and module state\<close>

text \<open>
  A WebSocket object is known by its identity, the index at which it was created. What a
  handler does to the outside is a list of effects, in program order:
  \<^verbatim>\<open>ws.send(JSON.stringify(obj))\<close> is \<open>WsSend ws obj\<close>, \<^verbatim>\<open>conn.close()\<close> is \<open>WsClose\<close>,
  \<^verbatim>\<open>bc.postMessage(m)\<close> is \<open>BcPost m\<close>, a \<^verbatim>\<open>console.log/warn/error\<close> call is \<open>Console\<close> with
  its level, and the rejection of a promise that nobody awaits is \<open>Unhandled\<close>.
\<close>

type_synonym sock = nat

datatype log_level = LogInfo | LogWarn | LogError

datatype effect =
    WsSend sock js
  | WsClose sock
  | BcPost js
  | Console log_level
  | Unhandled js_error

text \<open>
  The text written to a subscriber: \<open>SseTranscript p\<close> is
  \<^verbatim>\<open>'event: transcript\n' + 'data: ' + JSON.stringify(p) + '\n\n'\<close>, \<open>SseConnected\<close> is the
  \<^verbatim>\<open>': connected\n\n'\<close> of the \<^verbatim>\<open>/events\<close> route.
\<close>

datatype sse = SseConnected | SseTranscript js

text \<open>
  A subscriber is the object \<^verbatim>\<open>{ send: (text) => controller.enqueue(encoder.encode(text)) }\<close>
  of the \<^verbatim>\<open>/events\<close> route: \<^verbatim>\<open>enqueue\<close> throws a TypeError once the stream is no longer
  readable, and otherwise appends the chunk.
\<close>

record client =
  cid :: nat
  closed :: bool
  inbox :: "sse list"

definition client_send :: "client \<Rightarrow> sse \<Rightarrow> js_error + client" where
  "client_send c text =
     (if closed c then Inl TypeError else Inr (c\<lparr>inbox := inbox c @ [text]\<rparr>))"

text \<open>
  The closure of a socket's handlers: a signaling socket knows its meeting and stream, a
  media socket also the signaling socket it was given.
\<close>

datatype role = Signaling string string | Media string string sock

text \<open>
  \<^verbatim>\<open>activeConnections\<close> is a Map from the meeting to an object with the properties
  \<^verbatim>\<open>signaling\<close> and \<^verbatim>\<open>media\<close>; \<^verbatim>\<open>sseClients\<close> is a Set, iterated in insertion order.
\<close>

type_synonym conns = "(string \<times> sock) list"

record state =
  activeConnections :: "string \<rightharpoonup> conns"
  sseClients :: "client list"
  recentTranscripts :: "js list"
  sockets :: "(string \<times> role) list"

text \<open>Property assignment, \<^verbatim>\<open>delete\<close> and \<^verbatim>\<open>Object.values\<close> on such an object.\<close>

fun obj_set :: "string \<Rightarrow> 'v \<Rightarrow> (string \<times> 'v) list \<Rightarrow> (string \<times> 'v) list" where
  "obj_set k v [] = [(k, v)]"
| "obj_set k v ((k', v') # kvs) =
     (if k = k' then (k, v) # kvs else (k', v') # obj_set k v kvs)"

definition obj_delete :: "string \<Rightarrow> (string \<times> 'v) list \<Rightarrow> (string \<times> 'v) list" where
  "obj_delete k kvs = filter (\<lambda>kv. fst kv \<noteq> k) kvs"

definition obj_values :: "(string \<times> 'v) list \<Rightarrow> 'v list" where
  "obj_values kvs = map snd kvs"

text \<open>The module constants of \<^verbatim>\<open>config.js\<close> that the handlers read.\<close>

record config =
  INSTANCE_ID :: string
  bc :: bool
  ZOOM_CLIENT_ID :: "string option"
  ZOOM_CLIENT_SECRET :: "string option"

definition addToRecentTranscripts :: "js \<Rightarrow> state \<Rightarrow> state" where
  "addToRecentTranscripts transcript s =
     s\<lparr>recentTranscripts := addToRecentTranscripts_buf transcript (recentTranscripts s)\<rparr>"

definition getRecentTranscripts :: "state \<Rightarrow> js list" where
  "getRecentTranscripts s = recentTranscripts s"

section \<open>Opening a WebSocket\<close>

text \<open>
  \<^verbatim>\<open>new WebSocket(url)\<close> converts its argument to a string and throws a SyntaxError when
  that is no WebSocket URL. \<open>js_to_string\<close> is the conversion; \<open>ws_url_ok\<close> takes a URL to
  be one that starts with the scheme \<^verbatim>\<open>ws://\<close> or \<^verbatim>\<open>wss://\<close>.
\<close>

fun digits10 :: "nat \<Rightarrow> string" where
  "digits10 n =
     (if n < 10 then [''0123456789'' ! n]
      else digits10 (n div 10) @ [''0123456789'' ! (n mod 10)])"

declare digits10.simps [simp del]

definition int_to_string :: "int \<Rightarrow> string" where
  "int_to_string i = (if i < 0 then CHR ''-'' # digits10 (nat (- i)) else digits10 (nat i))"

fun join :: "string \<Rightarrow> string list \<Rightarrow> string" where
  "join sep [] = []"
| "join sep [x] = x"
| "join sep (x # y # xs) = x @ sep @ join sep (y # xs)"

fun js_to_string :: "js \<Rightarrow> string" where
  "js_to_string JUndefined = ''undefined''"
| "js_to_string JNull = ''null''"
| "js_to_string (JBool b) = (if b then ''true'' else ''false'')"
| "js_to_string (JNum n) = int_to_string n"
| "js_to_string (JStr s) = s"
| "js_to_string (JArr xs) =
     join '','' (map (\<lambda>x. if nullish x then [] else js_to_string x) xs)"
| "js_to_string (JObj kvs) = ''[object Object]''"

definition ws_url_ok :: "string \<Rightarrow> bool" where
  "ws_url_ok url = (take 5 url = ''ws://'' \<or> take 6 url = ''wss://'')"

definition new_WebSocket :: "js \<Rightarrow> role \<Rightarrow> state \<Rightarrow> js_error + (sock \<times> state)" where
  "new_WebSocket url r s =
     (if ws_url_ok (js_to_string url)
      then Inr (length (sockets s), s\<lparr>sockets := sockets s @ [(js_to_string url, r)]\<rparr>)
      else Inl SyntaxError)"

section \<open>Signatures\<close>

text \<open>
  \<^verbatim>\<open>crypto.subtle\<close> belongs to the platform: \<open>importKey\<close> turns the raw key bytes into a key
  or rejects, \<open>sign\<close> is the HMAC-SHA-256 digest of the data under the key. Bytes are
  characters; \<^verbatim>\<open>TextEncoder.encode\<close> has the default argument \<^verbatim>\<open>""\<close>, which an
  \<^verbatim>\<open>undefined\<close> argument selects.
\<close>

record crypto =
  importKey :: "string \<Rightarrow> js_error + string"
  sign :: "string \<Rightarrow> string \<Rightarrow> string"

definition TextEncoder_encode :: "string option \<Rightarrow> string" where
  "TextEncoder_encode input = (case input of None \<Rightarrow> [] | Some s \<Rightarrow> s)"

definition hex_digit :: "nat \<Rightarrow> char" where
  "hex_digit d = ''0123456789abcdef'' ! d"

text \<open>\<^verbatim>\<open>b.toString(16).padStart(2, '0')\<close> for a byte.\<close>

definition hex2 :: "char \<Rightarrow> string" where
  "hex2 b = [hex_digit (of_char b div 16), hex_digit (of_char b mod 16)]"

definition createHmacSha256 ::
  "crypto \<Rightarrow> string option \<Rightarrow> string option \<Rightarrow> js_error + string" where
  "createHmacSha256 P key data =
     (let keyData = TextEncoder_encode key;
          dataBytes = TextEncoder_encode data
      in case importKey P keyData of
           Inl e \<Rightarrow> Inl e
         | Inr keyImported \<Rightarrow> Inr (concat (map hex2 (sign P keyImported dataBytes))))"

text \<open>A value inside a template literal: \<^verbatim>\<open>undefined\<close> prints as the word.\<close>

definition template :: "string option \<Rightarrow> string" where
  "template v = (case v of None \<Rightarrow> ''undefined'' | Some s \<Rightarrow> s)"

definition generateSignature ::
  "crypto \<Rightarrow> config \<Rightarrow> string \<Rightarrow> string \<Rightarrow> js_error + string" where
  "generateSignature P C meetingUuid streamId =
     (let message = template (ZOOM_CLIENT_ID C) @ '','' @ meetingUuid @ '','' @ streamId
      in createHmacSha256 P (ZOOM_CLIENT_SECRET C) (Some message))"

section \<open>The signaling channel\<close>

text \<open>
  \<^verbatim>\<open>connectToMediaWebSocket\<close> up to the point where it installs the handlers: the socket is
  created first, and stored in the \<^verbatim>\<open>media\<close> slot only when the meeting has an entry.
  The function is \<^verbatim>\<open>async\<close>: an exception of the constructor rejects the returned promise.
\<close>

definition connectToMediaWebSocket ::
  "js \<Rightarrow> string \<Rightarrow> string \<Rightarrow> sock \<Rightarrow> state \<Rightarrow> js_error + (sock \<times> state)" where
  "connectToMediaWebSocket mediaUrl meetingUuid streamId signalingSocket s =
     (case new_WebSocket mediaUrl (Media meetingUuid streamId signalingSocket) s of
        Inl e \<Rightarrow> Inl e
      | Inr (mediaWs, s1) \<Rightarrow>
          (case activeConnections s1 meetingUuid of
             None \<Rightarrow> Inr (mediaWs, s1)
           | Some c \<Rightarrow>
               Inr (mediaWs, s1\<lparr>activeConnections :=
                      (activeConnections s1)(meetingUuid \<mapsto> obj_set ''media'' mediaWs c)\<rparr>)))"

text \<open>
  \<^verbatim>\<open>connectToSignalingWebSocket\<close>: the socket is created from the argument as it is, the
  entry of the meeting is created when missing, and the socket is stored in its
  \<^verbatim>\<open>signaling\<close> slot.
\<close>

definition connectToSignalingWebSocket ::
  "string \<Rightarrow> string \<Rightarrow> js \<Rightarrow> state \<Rightarrow> js_error + (sock \<times> state)" where
  "connectToSignalingWebSocket meetingUuid streamId serverUrl s =
     (case new_WebSocket serverUrl (Signaling meetingUuid streamId) s of
        Inl e \<Rightarrow> Inl e
      | Inr (ws, s1) \<Rightarrow>
          (let c = (case activeConnections s1 meetingUuid of None \<Rightarrow> [] | Some c \<Rightarrow> c)
           in Inr (ws, s1\<lparr>activeConnections :=
                     (activeConnections s1)(meetingUuid \<mapsto> obj_set ''signaling'' ws c)\<rparr>)))"

text \<open>
  \<^verbatim>\<open>ws.onopen\<close> of the signaling socket. \<open>sequence\<close> is the value of
  \<^verbatim>\<open>Math.floor(Math.random() * 1e9)\<close>. The handler is \<^verbatim>\<open>async\<close> and has no \<^verbatim>\<open>try\<close>: when
  \<^verbatim>\<open>generateSignature\<close> rejects, nothing is sent.
\<close>

definition signaling_onopen ::
  "crypto \<Rightarrow> config \<Rightarrow> string \<Rightarrow> string \<Rightarrow> sock \<Rightarrow> int \<Rightarrow> effect list" where
  "signaling_onopen P C meetingUuid streamId ws sequence =
     Console LogInfo #
     (case generateSignature P C meetingUuid streamId of
        Inl e \<Rightarrow> [Unhandled e]
      | Inr signature \<Rightarrow>
          [WsSend ws (JObj [(''msg_type'', JNum 1),
                            (''protocol_version'', JNum 1),
                            (''meeting_uuid'', JStr meetingUuid),
                            (''rtms_stream_id'', JStr streamId),
                            (''sequence'', JNum sequence),
                            (''signature'', JStr signature)]),
           Console LogInfo])"

definition keepAliveResponse :: "js \<Rightarrow> js" where
  "keepAliveResponse msg =
     JObj [(''msg_type'', JNum 13), (''timestamp'', js_prop msg ''timestamp'')]"

text \<open>
  \<^verbatim>\<open>ws.onmessage\<close> of the signaling socket. \<open>parsed\<close> is the outcome of \<^verbatim>\<open>parseWsJson\<close>.
  Everything runs inside one \<^verbatim>\<open>try\<close>; \<^verbatim>\<open>msg.msg_type\<close> throws when the message is
  \<^verbatim>\<open>null\<close>. The call of \<^verbatim>\<open>connectToMediaWebSocket\<close> is not awaited. A comparison with
  \<^verbatim>\<open>===\<close> against a number or string literal is equality of values.
\<close>

definition signaling_onmessage ::
  "string \<Rightarrow> string \<Rightarrow> sock \<Rightarrow> js_error + js \<Rightarrow> state \<Rightarrow> state \<times> effect list" where
  "signaling_onmessage meetingUuid streamId ws parsed s =
     (case parsed of
        Inl e \<Rightarrow> (s, [Console LogError])
      | Inr msg \<Rightarrow>
          if nullish msg then (s, [Console LogError])
          else
            (let (s1, effs1) =
                   (if js_prop msg ''msg_type'' = JNum 2 \<and> js_prop msg ''status_code'' = JNum 0
                    then
                      (let mediaUrl = opt_prop (opt_prop (js_prop msg ''media_server'')
                                         ''server_urls'') ''all''
                       in if truthy mediaUrl
                          then (case connectToMediaWebSocket mediaUrl meetingUuid streamId ws s of
                                  Inl e \<Rightarrow> (s, [Console LogInfo, Console LogInfo, Unhandled e])
                                | Inr (mediaWs, s') \<Rightarrow> (s', [Console LogInfo, Console LogInfo]))
                          else (s, [Console LogInfo, Console LogWarn]))
                    else (s, []));
                 effs2 =
                   (if js_prop msg ''msg_type'' = JNum 12
                    then [Console LogInfo, WsSend ws (keepAliveResponse msg), Console LogInfo]
                    else [])
             in (s1, effs1 @ effs2)))"

definition signaling_onclose :: "string \<Rightarrow> state \<Rightarrow> state \<times> effect list" where
  "signaling_onclose meetingUuid s =
     (case activeConnections s meetingUuid of
        None \<Rightarrow> (s, [Console LogInfo])
      | Some c \<Rightarrow>
          (s\<lparr>activeConnections :=
               (activeConnections s)(meetingUuid \<mapsto> obj_delete ''signaling'' c)\<rparr>,
           [Console LogInfo]))"

section \<open>The media channel and the transcript broadcast\<close>

definition media_onopen ::
  "crypto \<Rightarrow> config \<Rightarrow> string \<Rightarrow> string \<Rightarrow> sock \<Rightarrow> effect list" where
  "media_onopen P C meetingUuid streamId mediaWs =
     Console LogInfo #
     (case generateSignature P C meetingUuid streamId of
        Inl e \<Rightarrow> [Unhandled e]
      | Inr signature \<Rightarrow>
          [WsSend mediaWs (JObj [(''msg_type'', JNum 3),
                                 (''protocol_version'', JNum 1),
                                 (''meeting_uuid'', JStr meetingUuid),
                                 (''rtms_stream_id'', JStr streamId),
                                 (''signature'', JStr signature),
                                 (''media_type'', JNum 8),
                                 (''payload_encryption'', JBool False)]),
           Console LogInfo])"

text \<open>
  The loop over \<^verbatim>\<open>sseClients\<close> in the media handler: each \<^verbatim>\<open>client.send\<close> has its own
  \<^verbatim>\<open>try\<close>; a failure is logged and the loop goes on. The set itself is not touched.
\<close>

fun sse_fanout :: "sse \<Rightarrow> client list \<Rightarrow> client list \<times> effect list" where
  "sse_fanout text [] = ([], [])"
| "sse_fanout text (c # cs) =
     (let (cs', effs) = sse_fanout text cs
      in case client_send c text of
           Inr c' \<Rightarrow> (c' # cs', Console LogInfo # effs)
         | Inl e \<Rightarrow> (c # cs', Console LogError # effs))"

definition transcript_payload :: "js \<Rightarrow> js" where
  "transcript_payload content =
     JObj [(''msg_type'', JNum 17),
           (''content'', JObj [(''user_id'', js_prop content ''user_id''),
                               (''user_name'', js_prop content ''user_name''),
                               (''data'', js_prop content ''data''),
                               (''timestamp'', js_prop content ''timestamp'')])]"

definition relay_envelope :: "config \<Rightarrow> js \<Rightarrow> js" where
  "relay_envelope C payload =
     JObj [(''type'', JStr ''transcript''), (''origin'', JStr (INSTANCE_ID C)),
           (''payload'', payload)]"

text \<open>
  The inner \<^verbatim>\<open>try\<close> block of the transcript branch: store for polling, local fan-out,
  cross-isolate relay when a BroadcastChannel exists.
\<close>

definition broadcast_transcript :: "config \<Rightarrow> js \<Rightarrow> state \<Rightarrow> state \<times> effect list" where
  "broadcast_transcript C content s =
     (let payload = transcript_payload content;
          s1 = addToRecentTranscripts (js_prop payload ''content'') s;
          (cs, effs) = sse_fanout (SseTranscript payload) (sseClients s1);
          s2 = s1\<lparr>sseClients := cs\<rparr>
      in (s2, [Console LogInfo, Console LogInfo, Console LogInfo] @ effs @ [Console LogInfo] @
              (if bc C then [BcPost (relay_envelope C payload), Console LogInfo] else [])))"

text \<open>
  \<^verbatim>\<open>data?.slice(0, 50)\<close> in the log line before the inner \<^verbatim>\<open>try\<close>: \<^verbatim>\<open>data\<close> is truthy there,
  and the call throws a TypeError unless \<^verbatim>\<open>data\<close> has a \<^verbatim>\<open>slice\<close> method, as a string and an
  array have.
\<close>

fun has_slice :: "js \<Rightarrow> bool" where
  "has_slice (JStr s) = True"
| "has_slice (JArr xs) = True"
| "has_slice v = False"

definition clientReadyAck :: "string \<Rightarrow> js" where
  "clientReadyAck streamId = JObj [(''msg_type'', JNum 7), (''rtms_stream_id'', JStr streamId)]"

definition is_transcript_frame :: "js \<Rightarrow> bool" where
  "is_transcript_frame msg =
     (js_prop msg ''msg_type'' = JNum 17 \<and> truthy (js_prop msg ''content'') \<and>
      truthy (js_prop (js_prop msg ''content'') ''data''))"

definition media_onmessage ::
  "config \<Rightarrow> string \<Rightarrow> string \<Rightarrow> sock \<Rightarrow> sock \<Rightarrow> js_error + js \<Rightarrow> state
     \<Rightarrow> state \<times> effect list" where
  "media_onmessage C meetingUuid streamId mediaWs signalingSocket parsed s =
     (case parsed of
        Inl e \<Rightarrow> (s, [Console LogError])
      | Inr msg \<Rightarrow>
          if nullish msg then (s, [Console LogError])
          else
            (let effs1 =
                   (if js_prop msg ''msg_type'' = JNum 4 \<and> js_prop msg ''status_code'' = JNum 0
                    then [Console LogInfo, WsSend signalingSocket (clientReadyAck streamId),
                          Console LogInfo]
                    else []);
                 effs2 =
                   (if js_prop msg ''msg_type'' = JNum 12
                    then [Console LogInfo, WsSend mediaWs (keepAliveResponse msg), Console LogInfo]
                    else []);
                 (s3, effs3) =
                   (if is_transcript_frame msg
                    then (if has_slice (js_prop (js_prop msg ''content'') ''data'')
                          then (let (s', effs) = broadcast_transcript C (js_prop msg ''content'') s
                                in (s', Console LogInfo # effs))
                          else (s, [Console LogError]))
                    else (s, []))
             in (s3, effs1 @ effs2 @ effs3)))"

definition media_onclose :: "string \<Rightarrow> state \<Rightarrow> state \<times> effect list" where
  "media_onclose meetingUuid s =
     (case activeConnections s meetingUuid of
        None \<Rightarrow> (s, [Console LogInfo])
      | Some c \<Rightarrow>
          (s\<lparr>activeConnections :=
               (activeConnections s)(meetingUuid \<mapsto> obj_delete ''media'' c)\<rparr>,
           [Console LogInfo]))"

section \<open>The cross-isolate relay\<close>

text \<open>
  The loop of \<^verbatim>\<open>bc.onmessage\<close>: \<^verbatim>\<open>client.send\<close> is called without a \<^verbatim>\<open>try\<close> of its own, so the
  first exception leaves the loop; the second component is that exception.
\<close>

fun relay_deliver :: "sse \<Rightarrow> client list \<Rightarrow> client list \<times> js_error option" where
  "relay_deliver text [] = ([], None)"
| "relay_deliver text (c # cs) =
     (case client_send c text of
        Inl e \<Rightarrow> (c # cs, Some e)
      | Inr c' \<Rightarrow> (let (cs', r) = relay_deliver text cs in (c' # cs', r)))"

text \<open>
  \<^verbatim>\<open>bc.onmessage\<close> of the main module, on the envelope \<^verbatim>\<open>ev.data\<close>. The \<^verbatim>\<open>catch {}\<close> around
  the body swallows an exception of the loop without a trace.
\<close>

definition bc_onmessage :: "config \<Rightarrow> js \<Rightarrow> state \<Rightarrow> state \<times> effect list" where
  "bc_onmessage C msg s =
     (if \<not> truthy msg \<or> js_prop msg ''origin'' = JStr (INSTANCE_ID C) then (s, [])
      else if js_prop msg ''type'' = JStr ''transcript''
        then (let (cs, r) = relay_deliver (SseTranscript (js_prop msg ''payload'')) (sseClients s)
              in (s\<lparr>sseClients := cs\<rparr>, []))
      else (s, []))"

section \<open>The lifecycle webhook\<close>

text \<open>
  The \<^verbatim>\<open>meeting.rtms_started\<close> branch: \<^verbatim>\<open>server_urls\<close> goes to
  \<^verbatim>\<open>connectToSignalingWebSocket\<close> as it arrived, and the call is not awaited.
\<close>

definition rtms_started :: "string \<Rightarrow> string \<Rightarrow> js \<Rightarrow> state \<Rightarrow> state \<times> effect list" where
  "rtms_started meeting_uuid rtms_stream_id server_urls s =
     (case connectToSignalingWebSocket meeting_uuid rtms_stream_id server_urls s of
        Inl e \<Rightarrow> (s, [Console LogInfo, Unhandled e])
      | Inr (ws, s') \<Rightarrow> (s', [Console LogInfo]))"

text \<open>
  The \<^verbatim>\<open>meeting.rtms_stopped\<close> branch. Every value stored in an entry is a WebSocket, so
  the test \<^verbatim>\<open>conn && typeof conn.close === 'function'\<close> holds for each.
\<close>

definition rtms_stopped :: "string \<Rightarrow> state \<Rightarrow> state \<times> effect list" where
  "rtms_stopped meeting_uuid s =
     (case activeConnections s meeting_uuid of
        None \<Rightarrow> (s, [])
      | Some connections \<Rightarrow>
          (s\<lparr>activeConnections := (activeConnections s)(meeting_uuid := None)\<rparr>,
           map WsClose (obj_values connections)))"

section \<open>Observations\<close>







text \<open>
  \<^verbatim>\<open>importKey\<close> of the Web Cryptography API for a raw HMAC key: a key of length zero is
  rejected with a DataError.
\<close>

definition webcrypto_importKey :: "string \<Rightarrow> js_error + string" where
  "webcrypto_importKey keyData = (if keyData = [] then Inl DataError else Inr keyData)"

text \<open>
  The state of a freshly loaded module: \<^verbatim>\<open>new Map()\<close>, \<^verbatim>\<open>new Set()\<close>, \<^verbatim>\<open>[]\<close>, and
  no socket created yet.
\<close>

definition init_state :: state where
  "init_state = \<lparr>activeConnections = Map.empty, sseClients = [], recentTranscripts = [],
                  sockets = []\<rparr>"

section \<open>Auxiliary facts\<close>

lemma addToRecentTranscripts_buf_take:
  "addToRecentTranscripts_buf t buf = take 50 (t # buf)"
  by (simp add: addToRecentTranscripts_buf_def unshift_def slice0_def Let_def)

lemma take_append_take: "take n (xs @ take n ys) = take n (xs @ ys)"
  by (simp add: min_def)

lemma getRecent_add:
  "getRecentTranscripts (addToRecentTranscripts t s) = take 50 (t # getRecentTranscripts s)"
  by (simp add: getRecentTranscripts_def addToRecentTranscripts_def addToRecentTranscripts_buf_take)

lemma getRecent_fold:
  "length (getRecentTranscripts s) \<le> 50 \<Longrightarrow>
   getRecentTranscripts (fold addToRecentTranscripts ts s) = take 50 (rev ts @ getRecentTranscripts s)"
proof (induction ts arbitrary: s)
  case Nil
  then show ?case by simp
next
  case (Cons t ts)
  have "length (getRecentTranscripts (addToRecentTranscripts t s)) \<le> 50"
    by (simp add: getRecent_add)
  then have "getRecentTranscripts (fold addToRecentTranscripts (t # ts) s)
        = take 50 (rev ts @ take 50 (t # getRecentTranscripts s))"
    using Cons.IH [of "addToRecentTranscripts t s"] by (simp add: getRecent_add)
  also have "\<dots> = take 50 (rev ts @ t # getRecentTranscripts s)"
    by (rule take_append_take)
  finally show ?case by simp
qed

lemma digit_char_no_w: "d < 10 \<Longrightarrow> ''0123456789'' ! d \<noteq> CHR ''w''"
proof -
  assume "d < 10"
  then have "d \<in> {0,1,2,3,4,5,6,7,8,9}" by auto
  then show ?thesis by auto
qed

lemma digits10_no_w: "CHR ''w'' \<notin> set (digits10 n)"
proof (induction n rule: digits10.induct)
  case (1 n)
  show ?case
  proof (cases "n < 10")
    case True
    then show ?thesis using digit_char_no_w [of n] by (auto simp: digits10.simps [of n])
  next
    case False
    have "n mod 10 < 10" by simp
    then have "''0123456789'' ! (n mod 10) \<noteq> CHR ''w''" by (rule digit_char_no_w)
    with False 1 show ?thesis by (auto simp: digits10.simps [of n])
  qed
qed

lemma ws_url_ok_w: "ws_url_ok s \<Longrightarrow> CHR ''w'' \<in> set s"
  by (cases s) (auto simp: ws_url_ok_def)

lemma int_to_string_not_url: "\<not> ws_url_ok (int_to_string i)"
  using ws_url_ok_w [of "int_to_string i"] digits10_no_w
  by (auto simp: int_to_string_def split: if_splits)

lemma join_nil_head: "join sep ([] # xs) = [] \<or> (\<exists>r. join sep ([] # xs) = sep @ r)"
  by (cases xs) auto

lemma unresolvable_not_url:
  "resolveWsUrl v = JNull \<Longrightarrow> \<not> ws_url_ok (js_to_string v)"
proof (cases v)
  case (JArr xs)
  assume r: "resolveWsUrl v = JNull"
  show ?thesis
  proof (cases xs)
    case Nil
    with JArr show ?thesis by (simp add: ws_url_ok_def)
  next
    case (Cons x rest)
    with JArr r have "x = JNull"
      by (simp add: resolveWsUrl_def resolveWsUrl_try_def get_prop_def)
    with JArr Cons join_nil_head [of "'',''" "map (\<lambda>x. if nullish x then [] else js_to_string x) rest"]
    show ?thesis by (auto simp: ws_url_ok_def)
  qed
next
  case (JNum n)
  then show ?thesis by (simp add: int_to_string_not_url)
qed (auto simp: resolveWsUrl_def resolveWsUrl_try_def get_prop_def ws_url_ok_def split: if_splits)




lemma relay_deliver_open:
  "\<forall>c \<in> set cs. \<not> closed c \<Longrightarrow>
   relay_deliver text cs = (map (\<lambda>c. c\<lparr>inbox := inbox c @ [text]\<rparr>) cs, None)"
  by (induction cs) (auto simp: client_send_def split: prod.splits)

lemma relay_deliver_prefix:
  "fst (relay_deliver text cs) =
     map (\<lambda>c. c\<lparr>inbox := inbox c @ [text]\<rparr>) (takeWhile (\<lambda>c. \<not> closed c) cs)
     @ dropWhile (\<lambda>c. \<not> closed c) cs"
  by (induction cs) (auto simp: client_send_def split: prod.splits)

lemma bc_onmessage_fst:
  "bc_onmessage C msg s =
     (if \<not> truthy msg \<or> js_prop msg ''origin'' = JStr (INSTANCE_ID C) then (s, [])
      else if js_prop msg ''type'' = JStr ''transcript''
        then (s\<lparr>sseClients :=
                 fst (relay_deliver (SseTranscript (js_prop msg ''payload'')) (sseClients s))\<rparr>, [])
      else (s, []))"
  by (simp add: bc_onmessage_def split_def)


lemma broadcast_transcript_fst:
  "fst (broadcast_transcript C content s) =
     (addToRecentTranscripts (js_prop (transcript_payload content) ''content'') s)
       \<lparr>sseClients := fst (sse_fanout (SseTranscript (transcript_payload content)) (sseClients s))\<rparr>"
  by (simp add: broadcast_transcript_def Let_def split_def addToRecentTranscripts_def)


lemma media_onmessage_transcript:
  "is_transcript_frame msg \<Longrightarrow> has_slice (js_prop (js_prop msg ''content'') ''data'') \<Longrightarrow>
   media_onmessage C meetingUuid streamId mediaWs signalingSocket (Inr msg) s =
     (fst (broadcast_transcript C (js_prop msg ''content'') s),
      Console LogInfo # snd (broadcast_transcript C (js_prop msg ''content'') s))"
  by (cases msg) (auto simp: media_onmessage_def is_transcript_frame_def Let_def split_def)



section \<open>URL resolution (C7)\<close>

text \<open>
  C7. \<^verbatim>\<open>resolveWsUrl\<close> never throws: its \<^verbatim>\<open>try\<close> body always returns. A non-empty string is
  returned as it is; an object with a truthy \<^verbatim>\<open>all\<close> property yields that property's value;
  a non-empty list yields its first element. Every other candidate (\<^verbatim>\<open>null\<close>, \<^verbatim>\<open>undefined\<close>,
  the empty string, an empty list, an object whose \<^verbatim>\<open>all\<close> is missing or falsy, a boolean,
  a number) yields \<^verbatim>\<open>null\<close>.
\<close>

theorem resolveWsUrl_shapes:
  "resolveWsUrl_try v = Inr (resolveWsUrl v)
   \<and> resolveWsUrl (JStr u) = (if u = [] then JNull else JStr u)
   \<and> resolveWsUrl (JObj kvs) =
       (case map_of kvs ''all'' of None \<Rightarrow> JNull | Some a \<Rightarrow> if truthy a then a else JNull)
   \<and> resolveWsUrl (JArr xs) = (case xs of [] \<Rightarrow> JNull | x # rest \<Rightarrow> x)
   \<and> resolveWsUrl JNull = JNull
   \<and> resolveWsUrl JUndefined = JNull
   \<and> resolveWsUrl (JBool b) = JNull
   \<and> resolveWsUrl (JNum n) = JNull"
  by (cases v)
     (auto simp: resolveWsUrl_def resolveWsUrl_try_def get_prop_def
        split: option.splits list.splits)

theorem resolveWsUrl_shapes_witness:
  "resolveWsUrl (JStr ''wss://sig.example/abc'') = JStr ''wss://sig.example/abc''
   \<and> resolveWsUrl (JObj [(''all'', JStr ''wss://sig.example/abc'')]) = JStr ''wss://sig.example/abc''
   \<and> resolveWsUrl (JArr [JStr ''wss://a.example'', JStr ''wss://b.example'']) = JStr ''wss://a.example''
   \<and> resolveWsUrl (JArr []) = JNull
   \<and> resolveWsUrl (JObj [(''other'', JNum 1)]) = JNull
   \<and> resolveWsUrl_try JNull = Inr JNull"
  using resolveWsUrl_shapes [of JNull "''wss://sig.example/abc''"
          "[(''all'', JStr ''wss://sig.example/abc'')]"
          "[JStr ''wss://a.example'', JStr ''wss://b.example'']"]
        resolveWsUrl_shapes [of JNull "[]" "[(''other'', JNum 1)]" "[]"]
  by simp

section \<open>The recency buffer (C2)\<close>

text \<open>
  C2. After \<^verbatim>\<open>addToRecentTranscripts\<close> the buffer holds at most 50 entries, whatever it held
  before, and it is the new entry followed by the old ones, cut at 50. A transcript frame
  handled by the media channel is stored in exactly this way. Starting from the empty
  buffer, publishing a list of events leaves the last 50 of them, newest first; after 51
  distinct events the first one published is gone and the other 50 are there in reverse
  order of arrival.
\<close>

theorem recent_transcripts_bounded_newest_first:
  "length (getRecentTranscripts (addToRecentTranscripts t s)) \<le> 50
   \<and> getRecentTranscripts (addToRecentTranscripts t s) = take 50 (t # getRecentTranscripts s)
   \<and> (is_transcript_frame msg \<and> has_slice (js_prop (js_prop msg ''content'') ''data'') \<longrightarrow>
        getRecentTranscripts
          (fst (media_onmessage C meetingUuid streamId mediaWs signalingSocket (Inr msg) s))
        = take 50 (js_prop (transcript_payload (js_prop msg ''content'')) ''content''
                   # getRecentTranscripts s))
   \<and> (getRecentTranscripts s = [] \<longrightarrow>
        getRecentTranscripts (fold addToRecentTranscripts ts s) = take 50 (rev ts))
   \<and> (getRecentTranscripts s = [] \<and> distinct ts \<and> length ts = 51 \<longrightarrow>
        hd ts \<notin> set (getRecentTranscripts (fold addToRecentTranscripts ts s))
        \<and> getRecentTranscripts (fold addToRecentTranscripts ts s) = rev (tl ts))"
proof -
  have a: "getRecentTranscripts (addToRecentTranscripts t s) = take 50 (t # getRecentTranscripts s)"
    by (rule getRecent_add)
  have b: "length (getRecentTranscripts (addToRecentTranscripts t s)) \<le> 50"
    by (simp add: a)
  have c: "getRecentTranscripts
          (fst (media_onmessage C meetingUuid streamId mediaWs signalingSocket (Inr msg) s))
        = take 50 (js_prop (transcript_payload (js_prop msg ''content'')) ''content''
                   # getRecentTranscripts s)"
    if "is_transcript_frame msg" "has_slice (js_prop (js_prop msg ''content'') ''data'')"
    using that
    by (simp add: media_onmessage_transcript broadcast_transcript_fst getRecentTranscripts_def
          addToRecentTranscripts_def addToRecentTranscripts_buf_take)
  have d: "getRecentTranscripts (fold addToRecentTranscripts ts s) = take 50 (rev ts)"
    if "getRecentTranscripts s = []"
    using that getRecent_fold [of s ts] by simp
  have e: "hd ts \<notin> set (getRecentTranscripts (fold addToRecentTranscripts ts s))
        \<and> getRecentTranscripts (fold addToRecentTranscripts ts s) = rev (tl ts)"
    if h: "getRecentTranscripts s = []" "distinct ts" "length ts = 51"
  proof -
    from h(3) obtain x rest where ts: "ts = x # rest" by (cases ts) auto
    with h(3) have len: "length rest = 50" by simp
    from ts h(2) have nin: "x \<notin> set rest" by simp
    have "take 50 (rev ts) = rev rest" using ts len by simp
    with d [OF h(1)] ts nin show ?thesis by simp
  qed
  from a b c d e show ?thesis by blast
qed

theorem recent_transcripts_witness:
  "getRecentTranscripts init_state = []
   \<and> distinct (map JNum [1..51]) \<and> length (map JNum [1..51]) = 51
   \<and> JNum 1 \<notin> set (getRecentTranscripts (fold addToRecentTranscripts (map JNum [1..51]) init_state))
   \<and> getRecentTranscripts (fold addToRecentTranscripts (map JNum [1..51]) init_state)
       = rev (map JNum [2..51])
   \<and> getRecentTranscripts
        (fst (media_onmessage
               \<lparr>INSTANCE_ID = ''A'', bc = True, ZOOM_CLIENT_ID = None, ZOOM_CLIENT_SECRET = None\<rparr>
               ''meeting'' ''stream'' 1 0
               (Inr (JObj [(''msg_type'', JNum 17),
                           (''content'', JObj [(''user_id'', JStr ''u1''),
                                               (''user_name'', JStr ''Alice''),
                                               (''data'', JStr ''hello''),
                                               (''timestamp'', JNum 1234)])]))
               init_state))
       = [JObj [(''user_id'', JStr ''u1''), (''user_name'', JStr ''Alice''),
                (''data'', JStr ''hello''), (''timestamp'', JNum 1234)]]"
proof -
  let ?ts = "map JNum [1..51]"
  let ?R = "getRecentTranscripts (fold addToRecentTranscripts ?ts init_state)"
  let ?msg = "JObj [(''msg_type'', JNum 17),
                    (''content'', JObj [(''user_id'', JStr ''u1''),
                                        (''user_name'', JStr ''Alice''),
                                        (''data'', JStr ''hello''),
                                        (''timestamp'', JNum 1234)])]"
  let ?C = "\<lparr>INSTANCE_ID = ''A'', bc = True, ZOOM_CLIENT_ID = None, ZOOM_CLIENT_SECRET = None\<rparr>"
  have h1: "getRecentTranscripts init_state = []"
    by (simp add: getRecentTranscripts_def init_state_def)
  have h2: "distinct ?ts" by code_simp
  have h3: "length ?ts = 51" by simp
  have h4: "hd ?ts = JNum 1" by code_simp
  have h5: "tl ?ts = map JNum [2..51]" by code_simp
  have f1: "is_transcript_frame ?msg"
    by (simp add: is_transcript_frame_def)
  have f2: "has_slice (js_prop (js_prop ?msg ''content'') ''data'')"
    by simp
  note t = recent_transcripts_bounded_newest_first
      [where s = init_state and ts = ?ts and msg = ?msg and C = ?C
         and meetingUuid = "''meeting''" and streamId = "''stream''"
         and mediaWs = 1 and signalingSocket = 0]
  from t h1 h2 h3 have r: "hd ?ts \<notin> set ?R \<and> ?R = rev (tl ?ts)" by blast
  from r have r1: "JNum 1 \<notin> set ?R" unfolding h4 by (rule conjunct1)
  from r have r2: "?R = rev (map JNum [2..51])" unfolding h5 by (rule conjunct2)
  from t f1 f2 have "getRecentTranscripts
          (fst (media_onmessage ?C ''meeting'' ''stream'' 1 0 (Inr ?msg) init_state))
        = take 50 (js_prop (transcript_payload (js_prop ?msg ''content'')) ''content''
                   # getRecentTranscripts init_state)" by blast
  then have m: "getRecentTranscripts
          (fst (media_onmessage ?C ''meeting'' ''stream'' 1 0 (Inr ?msg) init_state))
       = [JObj [(''user_id'', JStr ''u1''), (''user_name'', JStr ''Alice''),
                (''data'', JStr ''hello''), (''timestamp'', JNum 1234)]]"
    by (simp add: h1 transcript_payload_def)
  from h1 h2 h3 r1 r2 m show ?thesis by (intro conjI)
qed

section \<open>Keep-alive (C3)\<close>



section \<open>The ready acknowledgment (C8)\<close>

text \<open>
  The media socket is created by the signaling handler on a successful handshake, and the
  socket it is given for the acknowledgment is the signaling socket the handshake
  arrived on.
\<close>

lemma media_socket_is_given_the_signaling_socket:
  "js_prop msg ''msg_type'' = JNum 2 \<Longrightarrow> js_prop msg ''status_code'' = JNum 0 \<Longrightarrow>
   opt_prop (opt_prop (js_prop msg ''media_server'') ''server_urls'') ''all'' = JStr url \<Longrightarrow>
   ws_url_ok url \<Longrightarrow>
   sockets (fst (signaling_onmessage meetingUuid streamId ws (Inr msg) s))
     = sockets s @ [(url, Media meetingUuid streamId ws)]"
  by (cases msg)
     (auto simp: signaling_onmessage_def connectToMediaWebSocket_def new_WebSocket_def Let_def
        ws_url_ok_def split: option.splits)



section \<open>Deregistering a meeting (C9)\<close>

lemma rtms_stopped_absent:
  "activeConnections s m = None \<Longrightarrow> rtms_stopped m s = (s, [])"
  by (simp add: rtms_stopped_def)

lemma rtms_stopped_present:
  "activeConnections s m = Some c \<Longrightarrow>
   rtms_stopped m s =
     (s\<lparr>activeConnections := (activeConnections s)(m := None)\<rparr>, map WsClose (obj_values c))"
  by (simp add: rtms_stopped_def)

text \<open>
  C9. The \<^verbatim>\<open>meeting.rtms_stopped\<close> branch closes every handle stored for the meeting and
  removes the meeting's entry; the entries of all other meetings, the subscribers, the
  recent transcripts and the sockets stay as they were. Without an entry it changes
  nothing and closes nothing, and a second call after a first is such a call.
\<close>

theorem rtms_stopped_deregisters:
  "activeConnections (fst (rtms_stopped m s)) m = None
   \<and> (\<forall>m'. m' \<noteq> m \<longrightarrow>
         activeConnections (fst (rtms_stopped m s)) m' = activeConnections s m')
   \<and> sseClients (fst (rtms_stopped m s)) = sseClients s
   \<and> recentTranscripts (fst (rtms_stopped m s)) = recentTranscripts s
   \<and> sockets (fst (rtms_stopped m s)) = sockets s
   \<and> snd (rtms_stopped m s) =
       (case activeConnections s m of None \<Rightarrow> [] | Some c \<Rightarrow> map WsClose (obj_values c))
   \<and> (activeConnections s m = None \<longrightarrow> rtms_stopped m s = (s, []))
   \<and> rtms_stopped m (fst (rtms_stopped m s)) = (fst (rtms_stopped m s), [])"
proof (cases "activeConnections s m")
  case None
  then show ?thesis by (simp add: rtms_stopped_absent)
next
  case (Some c)
  have "rtms_stopped m (s\<lparr>activeConnections := (activeConnections s)(m := None)\<rparr>)
        = (s\<lparr>activeConnections := (activeConnections s)(m := None)\<rparr>, [])"
    by (rule rtms_stopped_absent) simp
  with Some show ?thesis by (simp add: rtms_stopped_present)
qed

theorem rtms_stopped_witness:
  "snd (rtms_stopped ''m1''
         (init_state\<lparr>activeConnections :=
            [''m1'' \<mapsto> [(''signaling'', 0), (''media'', 1)], ''m2'' \<mapsto> [(''signaling'', 2)]]\<rparr>))
     = [WsClose 0, WsClose 1]
   \<and> activeConnections (fst (rtms_stopped ''m1''
         (init_state\<lparr>activeConnections :=
            [''m1'' \<mapsto> [(''signaling'', 0), (''media'', 1)], ''m2'' \<mapsto> [(''signaling'', 2)]]\<rparr>)))
        ''m2'' = Some [(''signaling'', 2)]
   \<and> activeConnections init_state ''m1'' = None
   \<and> rtms_stopped ''m1'' init_state = (init_state, [])"
proof -
  let ?s = "init_state\<lparr>activeConnections :=
            [''m1'' \<mapsto> [(''signaling'', 0), (''media'', 1)], ''m2'' \<mapsto> [(''signaling'', 2)]]\<rparr>"
  have n: "activeConnections init_state ''m1'' = None" by (simp add: init_state_def)
  have a: "activeConnections ?s ''m1'' = Some [(''signaling'', 0), (''media'', 1)]" by simp
  have b: "activeConnections ?s ''m2'' = Some [(''signaling'', 2)]" by simp
  have d: "''m2'' \<noteq> ''m1''" by simp
  note t = rtms_stopped_deregisters [of "''m1''" ?s]
  note t2 = t [THEN conjunct2, THEN conjunct1, THEN spec, THEN mp, OF d]
  note t6 = t [THEN conjunct2, THEN conjunct2, THEN conjunct2, THEN conjunct2, THEN conjunct2,
               THEN conjunct1]
  note u7 = rtms_stopped_deregisters [of "''m1''" init_state, THEN conjunct2, THEN conjunct2,
               THEN conjunct2, THEN conjunct2, THEN conjunct2, THEN conjunct2, THEN conjunct1,
               THEN mp, OF n]
  have e: "snd (rtms_stopped ''m1'' ?s) = [WsClose 0, WsClose 1]"
    using t6 unfolding a by (simp add: obj_values_def)
  have f: "activeConnections (fst (rtms_stopped ''m1'' ?s)) ''m2'' = Some [(''signaling'', 2)]"
    using t2 unfolding b .
  from e f n u7 show ?thesis by (intro conjI)
qed

section \<open>Signing without a secret (C5)\<close>

text \<open>
  C5. With \<^verbatim>\<open>ZOOM_CLIENT_SECRET\<close> absent the key bytes are empty, and they go to the
  platform's \<^verbatim>\<open>importKey\<close>. When \<^verbatim>\<open>importKey\<close> rejects the empty key, as the Web
  Cryptography API has it for HMAC, \<^verbatim>\<open>generateSignature\<close> fails with that error, whatever
  the digest function is: no digest is computed, and neither handshake is sent.
\<close>

theorem generateSignature_absent_secret:
  "importKey P [] = Inl e \<Longrightarrow> ZOOM_CLIENT_SECRET C = None \<Longrightarrow>
     generateSignature P C meetingUuid streamId = Inl e
   \<and> signaling_onopen P C meetingUuid streamId ws sequence = [Console LogInfo, Unhandled e]
   \<and> media_onopen P C meetingUuid streamId mediaWs = [Console LogInfo, Unhandled e]"
  by (simp add: generateSignature_def createHmacSha256_def TextEncoder_encode_def
        signaling_onopen_def media_onopen_def Let_def)

theorem generateSignature_absent_secret_witness:
  "importKey \<lparr>importKey = webcrypto_importKey, sign = (\<lambda>k d. k @ d)\<rparr> [] = Inl DataError
   \<and> ZOOM_CLIENT_SECRET
        \<lparr>INSTANCE_ID = ''A'', bc = True, ZOOM_CLIENT_ID = Some ''client'',
          ZOOM_CLIENT_SECRET = None\<rparr> = None
   \<and> generateSignature \<lparr>importKey = webcrypto_importKey, sign = (\<lambda>k d. k @ d)\<rparr>
        \<lparr>INSTANCE_ID = ''A'', bc = True, ZOOM_CLIENT_ID = Some ''client'',
          ZOOM_CLIENT_SECRET = None\<rparr> ''meeting'' ''stream'' = Inl DataError
   \<and> signaling_onopen \<lparr>importKey = webcrypto_importKey, sign = (\<lambda>k d. k @ d)\<rparr>
        \<lparr>INSTANCE_ID = ''A'', bc = True, ZOOM_CLIENT_ID = Some ''client'',
          ZOOM_CLIENT_SECRET = None\<rparr> ''meeting'' ''stream'' 0 42
       = [Console LogInfo, Unhandled DataError]"
proof -
  let ?P = "\<lparr>importKey = webcrypto_importKey, sign = (\<lambda>k d. k @ d)\<rparr>"
  let ?C = "\<lparr>INSTANCE_ID = ''A'', bc = True, ZOOM_CLIENT_ID = Some ''client'',
             ZOOM_CLIENT_SECRET = None\<rparr>"
  have h1: "importKey ?P [] = Inl DataError" by (simp add: webcrypto_importKey_def)
  have h2: "ZOOM_CLIENT_SECRET ?C = None" by simp
  from generateSignature_absent_secret [OF h1 h2, of "''meeting''" "''stream''" 0 42] h1 h2
  show ?thesis by blast
qed

text \<open>
  The code has no check of its own: on a platform whose \<^verbatim>\<open>importKey\<close> took the empty
  key, the digest under that key would be the signature.
\<close>

lemma generateSignature_no_guard_of_its_own:
  "importKey P [] = Inr k \<Longrightarrow> ZOOM_CLIENT_SECRET C = None \<Longrightarrow>
     generateSignature P C meetingUuid streamId =
       Inr (concat (map hex2 (sign P k
              (template (ZOOM_CLIENT_ID C) @ '','' @ meetingUuid @ '','' @ streamId))))"
  by (simp add: generateSignature_def createHmacSha256_def TextEncoder_encode_def Let_def)

section \<open>Local fan-out of a publish (C4)\<close>




section \<open>The relay between two instances (C1)\<close>


lemma relay_ignores_own_envelope:
  "bc_onmessage C (relay_envelope C payload) s = (s, [])"
  by (simp add: bc_onmessage_def relay_envelope_def)

lemma relay_delivers_once_when_all_accept:
  "INSTANCE_ID C \<noteq> INSTANCE_ID C' \<Longrightarrow> \<forall>c \<in> set (sseClients s). \<not> closed c \<Longrightarrow>
   bc_onmessage C (relay_envelope C' payload) s =
     (s\<lparr>sseClients := map (\<lambda>c. c\<lparr>inbox := inbox c @ [SseTranscript payload]\<rparr>) (sseClients s)\<rparr>,
      [])"
  by (simp add: bc_onmessage_fst relay_envelope_def relay_deliver_open)



section \<open>A session start without a usable URL (C6)\<close>

text \<open>
  The \<^verbatim>\<open>meeting.rtms_started\<close> branch does not call \<^verbatim>\<open>resolveWsUrl\<close>. For every candidate
  that \<^verbatim>\<open>resolveWsUrl\<close> maps to \<^verbatim>\<open>null\<close> the WebSocket constructor throws, no entry is
  stored, and the outcome is the unhandled rejection of the promise of
  \<^verbatim>\<open>connectToSignalingWebSocket\<close>; no warning is logged. An object with an \<^verbatim>\<open>all\<close> URL,
  which \<^verbatim>\<open>resolveWsUrl\<close> would resolve, ends the same way; a plain URL string opens the
  socket.
\<close>

lemma rtms_started_unresolvable:
  "resolveWsUrl server_urls = JNull \<Longrightarrow>
   rtms_started meeting_uuid rtms_stream_id server_urls s
     = (s, [Console LogInfo, Unhandled SyntaxError])"
  using unresolvable_not_url [of server_urls]
  by (simp add: rtms_started_def connectToSignalingWebSocket_def new_WebSocket_def)

lemma rtms_started_object_with_all:
  "resolveWsUrl (JObj [(''all'', JStr ''wss://sig.example/abc'')]) = JStr ''wss://sig.example/abc''
   \<and> rtms_started meeting_uuid rtms_stream_id (JObj [(''all'', JStr ''wss://sig.example/abc'')]) s
       = (s, [Console LogInfo, Unhandled SyntaxError])"
  by (simp add: rtms_started_def connectToSignalingWebSocket_def new_WebSocket_def ws_url_ok_def
        resolveWsUrl_def resolveWsUrl_try_def get_prop_def)

lemma rtms_started_string_url:
  "rtms_started ''meeting'' ''stream'' (JStr ''wss://sig.example/abc'') init_state
     = (\<lparr>activeConnections = [''meeting'' \<mapsto> [(''signaling'', 0)]], sseClients = [],
         recentTranscripts = [],
         sockets = [(''wss://sig.example/abc'', Signaling ''meeting'' ''stream'')]\<rparr>,
        [Console LogInfo])"
  by (simp add: rtms_started_def connectToSignalingWebSocket_def new_WebSocket_def ws_url_ok_def
        init_state_def)

text \<open>
  C6. A session start whose \<^verbatim>\<open>server_urls\<close> is \<^verbatim>\<open>null\<close>: nothing is opened or stored, the
  only log entry is the informational line of the webhook, and the rejection of the
  promise is handled by nobody.
\<close>

theorem rtms_started_null_urls:
  "resolveWsUrl JNull = JNull
   \<and> rtms_started ''meeting'' ''stream'' JNull init_state
       = (init_state, [Console LogInfo, Unhandled SyntaxError])"
  by (simp add: rtms_started_def connectToSignalingWebSocket_def new_WebSocket_def ws_url_ok_def
        resolveWsUrl_def resolveWsUrl_try_def)

text \<open>The effects of that session start contain no warning and end in the rejection.\<close>

theorem rtms_started_null_urls_witness:
  "snd (rtms_started ''meeting'' ''stream'' JNull init_state)
     = [Console LogInfo, Unhandled SyntaxError]"
  unfolding rtms_started_null_urls [THEN conjunct2] by simp

section \<open>Relayed envelopes and the recency buffer (C10)\<close>



end
